theory Spec2Isabelle
  imports Complex_Main
begin

section \<open>Text\<close>

text \<open>
  Python strings are modelled as \<^typ>\<open>string\<close>, lists of 8-bit characters read as the code
  points below 256. Of these, the decimal digits matched by the regular expression class
  \<^verbatim>\<open>\d\<close> are exactly \<^verbatim>\<open>0\<close> to \<^verbatim>\<open>9\<close>. The non-ASCII
  symbols of the message literals are spelled as their UTF-8 bytes. Integers are unbounded,
  and a run of digits converts to an integer whatever its length (the interpreter's
  optional limit on the digits of such a conversion is not modelled).
\<close>

definition is_digit :: "char \<Rightarrow> bool" where
  "is_digit c = (48 \<le> (of_char c :: nat) \<and> (of_char c :: nat) \<le> 57)"

definition digit_val :: "char \<Rightarrow> nat" where
  "digit_val c = of_char c - 48"

text \<open>\<^verbatim>\<open>int(s)\<close> on a run of decimal digits, most significant digit first.\<close>

fun digits_to_nat :: "nat \<Rightarrow> string \<Rightarrow> nat" where
  "digits_to_nat acc [] = acc"
| "digits_to_nat acc (c # cs) = digits_to_nat (10 * acc + digit_val c) cs"

text \<open>\<^verbatim>\<open>str(n)\<close> and the \<^verbatim>\<open>{n}\<close> of an f-string, for an integer.\<close>

definition digit_char :: "nat \<Rightarrow> char" where
  "digit_char d = ''0123456789'' ! d"

fun str_nat :: "nat \<Rightarrow> string" where
  "str_nat n = (if n < 10 then [digit_char n]
                else str_nat (n div 10) @ [digit_char (n mod 10)])"

declare str_nat.simps [simp del]

definition str_int :: "int \<Rightarrow> string" where
  "str_int i = (if i < 0 then CHR ''-'' # str_nat (nat (- i)) else str_nat (nat i))"

section \<open>Double precision\<close>

text \<open>
  A Python \<^verbatim>\<open>float\<close> is an IEEE 754 double. The model keeps the value of a finite
  double as a real number and rounds the exact result of an operation as the hardware does:
  to the nearest double, a tie to the one with an even mantissa, beyond the largest double
  to an infinity. No operation of the program yields a NaN.
\<close>

datatype pyfloat = Fin real | PosInf | NegInf

text \<open>The nearest integer, a tie to the even one.\<close>

definition rne :: "real \<Rightarrow> int" where
  "rne y = (let f = \<lfloor>y\<rfloor>; r = y - of_int f
            in if r < 1 / 2 then f
               else if r > 1 / 2 then f + 1
               else if even f then f else f + 1)"

text \<open>
  The exponent of the last mantissa bit of the doubles around \<open>x\<close>: the least \<open>e\<close> from
  \<open>-1074\<close> (the subnormal spacing) with \<open>\<bar>x\<bar> < 2 powi (e + 53)\<close>, and 971, that of the
  largest doubles, if there is none below. The search has fuel for the whole range.
\<close>

fun find_exp :: "nat \<Rightarrow> int \<Rightarrow> real \<Rightarrow> int" where
  "find_exp fuel e x =
     (if fuel = 0 \<or> \<bar>x\<bar> < 2 powi (e + 53) then e else find_exp (fuel - 1) (e + 1) x)"

declare find_exp.simps [simp del]

definition double_exp :: "real \<Rightarrow> int" where
  "double_exp x = find_exp 2045 (- 1074) x"

definition round_double :: "real \<Rightarrow> pyfloat" where
  "round_double x =
     (let e = double_exp x; m = rne (x / 2 powi e)
      in if e = 971 \<and> m \<ge> 2 ^ 53 then PosInf
         else if e = 971 \<and> m \<le> - (2 ^ 53) then NegInf
         else Fin (of_int m * 2 powi e))"

text \<open>
  The comparisons \<^verbatim>\<open>a < c\<close> and \<^verbatim>\<open>a >= c\<close> of a float with a finite number;
  Python compares a float with an \<^verbatim>\<open>int\<close> exactly.
\<close>

definition float_lt :: "pyfloat \<Rightarrow> real \<Rightarrow> bool" where
  "float_lt a c = (case a of Fin v \<Rightarrow> v < c | PosInf \<Rightarrow> False | NegInf \<Rightarrow> True)"

definition float_ge :: "pyfloat \<Rightarrow> real \<Rightarrow> bool" where
  "float_ge a c = (case a of Fin v \<Rightarrow> v \<ge> c | PosInf \<Rightarrow> True | NegInf \<Rightarrow> False)"

text \<open>The difference \<^verbatim>\<open>a - b\<close> of two finite floats.\<close>

definition float_sub :: "real \<Rightarrow> real \<Rightarrow> pyfloat" where
  "float_sub a b = round_double (a - b)"

text \<open>
  The quotient \<^verbatim>\<open>a / b\<close> of two integers, \<open>b\<close> not 0: Python rounds the exact
  quotient once. Where the quotient is beyond the doubles the interpreter raises
  \<^verbatim>\<open>OverflowError\<close>; the model gives the infinite value there, and the statements
  about a quotient bound its operands.
\<close>

definition true_div :: "int \<Rightarrow> int \<Rightarrow> pyfloat" where
  "true_div a b = round_double (real_of_int a / real_of_int b)"

text \<open>The value of a float literal, such as \<^verbatim>\<open>0.85\<close>, inside the range of the doubles.\<close>

definition double_literal :: "real \<Rightarrow> real" where
  "double_literal x = (case round_double x of Fin v \<Rightarrow> v | PosInf \<Rightarrow> x | NegInf \<Rightarrow> x)"

section \<open>ReminderEngine\<close>

subsection \<open>The collaborators\<close>

text \<open>
  The engine reads the clock with \<^verbatim>\<open>time.time()\<close>, stamps history records with
  \<^verbatim>\<open>datetime.now().isoformat()\<close> and calls \<^verbatim>\<open>notification.notify\<close>, which may
  raise. The three are inputs of the model: \<open>clock env n\<close> is what the \<open>n\<close>-th call of
  \<^verbatim>\<open>time.time()\<close> returns, \<open>stamp env n\<close> the timestamp of the \<open>n\<close>-th history record,
  \<open>notify_raises env n\<close> whether the \<open>n\<close>-th call of the notifier raises. A clock
  reading is the value of a finite double.
\<close>

record env =
  clock :: "nat \<Rightarrow> real"
  stamp :: "nat \<Rightarrow> string"
  notify_raises :: "nat \<Rightarrow> bool"

subsection \<open>State\<close>

record reminder =
  r_timestamp :: string
  r_type :: string
  r_message :: string
  r_urgency :: string

record config =
  supply_warning_threshold :: real
  supply_critical_threshold :: real
  resource_overflow_threshold :: int
  worker_ideal_count :: "(string \<times> int) list"
  upgrade_reminder_interval :: int
  amon_attack_wave_intervals :: "int list"

text \<open>
  The fields of the class, and two counters of the model: \<open>time_calls\<close>, the number of
  clock readings taken so far, and \<open>notify_log\<close>, the calls made to the notifier in
  order: title, message, and whether the call raised.
\<close>

record engine =
  enable_notifications :: bool
  reminder_history :: "reminder list"
  cooldowns :: "string \<rightharpoonup> real"
  default_cooldown :: real
  config :: config
  time_calls :: nat
  notify_log :: "(string \<times> string \<times> bool) list"

definition init_config :: config where
  "init_config = \<lparr>
     supply_warning_threshold = double_literal (85 / 100),
     supply_critical_threshold = double_literal (95 / 100),
     resource_overflow_threshold = 1000,
     worker_ideal_count = [(''early'', 16), (''mid'', 22), (''late'', 24)],
     upgrade_reminder_interval = 120,
     amon_attack_wave_intervals = [240, 480, 720, 960] \<rparr>"

text \<open>\<^verbatim>\<open>ReminderEngine.__init__\<close>\<close>

definition init_engine :: "bool \<Rightarrow> engine" where
  "init_engine enable = \<lparr>
     enable_notifications = enable,
     reminder_history = [],
     cooldowns = Map.empty,
     default_cooldown = 30,
     config = init_config,
     time_calls = 0,
     notify_log = [] \<rparr>"

subsection \<open>Cooldown and emission\<close>

text \<open>
  \<^verbatim>\<open>_can_send_reminder\<close>: the answer and the engine afterwards. The difference of
  the two clock readings is a float subtraction.
\<close>

definition can_send_reminder :: "env \<Rightarrow> string \<Rightarrow> engine \<Rightarrow> bool \<times> engine" where
  "can_send_reminder ev reminder_type e =
     (let current_time = clock ev (time_calls e);
          e1 = e\<lparr>time_calls := Suc (time_calls e)\<rparr>
      in case cooldowns e reminder_type of
           Some last_time \<Rightarrow>
             if float_lt (float_sub current_time last_time) (default_cooldown e)
             then (False, e1)
             else (True, e1\<lparr>cooldowns := (cooldowns e)(reminder_type \<mapsto> current_time)\<rparr>)
         | None \<Rightarrow>
             (True, e1\<lparr>cooldowns := (cooldowns e)(reminder_type \<mapsto> current_time)\<rparr>))"

text \<open>
  \<^verbatim>\<open>_send_notification\<close>. The notifier's outcome is recorded with the call; an
  exception is caught and logged, so both outcomes continue with the history record.
\<close>

definition send_notification :: "env \<Rightarrow> string \<Rightarrow> string \<Rightarrow> string \<Rightarrow> engine \<Rightarrow> engine" where
  "send_notification ev title message urgency e =
     (if \<not> enable_notifications e then e
      else
        let raised = notify_raises ev (length (notify_log e));
            e1 = e\<lparr>notify_log := notify_log e @ [(title, message, raised)]\<rparr>
        in e1\<lparr>reminder_history := reminder_history e1 @
               [\<lparr> r_timestamp = stamp ev (length (reminder_history e1)),
                  r_type = title, r_message = message, r_urgency = urgency \<rparr>]\<rparr>)"

subsection \<open>The checks\<close>

text \<open>\<^verbatim>\<open>d.get(key, default)\<close>\<close>

definition dict_get :: "('k \<rightharpoonup> 'v) \<Rightarrow> 'k \<Rightarrow> 'v \<Rightarrow> 'v" where
  "dict_get d k dflt = (case d k of Some v \<Rightarrow> v | None \<Rightarrow> dflt)"

definition sym_warning :: string where
  "sym_warning = [CHR 0xE2, CHR 0x9A, CHR 0xA0, CHR 0xEF, CHR 0xB8, CHR 0x8F]"

definition sym_gem :: string where
  "sym_gem = [CHR 0xF0, CHR 0x9F, CHR 0x92, CHR 0x8E]"

definition sym_fuel :: string where
  "sym_fuel = [CHR 0xE2, CHR 0x9B, CHR 0xBD]"

definition sym_up :: string where
  "sym_up = [CHR 0xE2, CHR 0xAC, CHR 0x86, CHR 0xEF, CHR 0xB8, CHR 0x8F]"


definition sym_bulb :: string where
  "sym_bulb = [CHR 0xF0, CHR 0x9F, CHR 0x92, CHR 0xA1]"

text \<open>
  \<^verbatim>\<open>check_supply\<close>. The quotient \<^verbatim>\<open>supply_used / supply_cap\<close> is a float, compared
  with the two float thresholds.
\<close>

definition check_supply :: "env \<Rightarrow> (string \<rightharpoonup> int) \<Rightarrow> engine \<Rightarrow> string option \<times> engine" where
  "check_supply ev supply_data e =
     (let supply_used = dict_get supply_data ''supply_used'' 0;
          supply_cap = dict_get supply_data ''supply_cap'' 200
      in if supply_cap = 0 then (None, e)
         else
           let ratio = true_div supply_used supply_cap
           in if float_ge ratio (supply_critical_threshold (config e)) then
                (let (ok, e1) = can_send_reminder ev ''supply_critical'' e
                 in if ok then
                      (let message = sym_warning @ '' SUPPLY BLOCKED! '' @ str_int supply_used
                                       @ ''/'' @ str_int supply_cap
                       in (Some message,
                           send_notification ev ''Supply Critical'' message ''critical'' e1))
                    else (None, e1))
              else if float_ge ratio (supply_warning_threshold (config e)) then
                (let (ok, e1) = can_send_reminder ev ''supply_warning'' e
                 in if ok then
                      (let message = sym_warning @ '' Supply Warning: '' @ str_int supply_used
                                       @ ''/'' @ str_int supply_cap
                       in (Some message,
                           send_notification ev ''Build Supply'' message ''normal'' e1))
                    else (None, e1))
              else (None, e))"

text \<open>\<^verbatim>\<open>check_resources\<close>\<close>

definition check_resources ::
  "env \<Rightarrow> (string \<rightharpoonup> int) \<Rightarrow> int \<Rightarrow> engine \<Rightarrow> string list \<times> engine" where
  "check_resources ev resource_data game_time_seconds e =
     (let minerals = dict_get resource_data ''minerals'' 0;
          gas = dict_get resource_data ''gas'' 0
      in if game_time_seconds < 180 then ([], e)
         else
           let threshold = resource_overflow_threshold (config e);
               (reminders1, e2) =
                 (if minerals > threshold then
                    (let (ok, e1) = can_send_reminder ev ''mineral_overflow'' e
                     in if ok then
                          (let message = sym_gem @ '' High minerals: '' @ str_int minerals
                                           @ '' - Expand or build army!''
                           in ([message],
                               send_notification ev ''Resource Alert'' message ''normal'' e1))
                        else ([], e1))
                  else ([], e))
           in if gas > threshold then
                (let (ok, e3) = can_send_reminder ev ''gas_overflow'' e2
                 in if ok then
                      (let message = sym_fuel @ '' High gas: '' @ str_int gas
                                       @ '' - Tech up or build advanced units!''
                       in (reminders1 @ [message],
                           send_notification ev ''Resource Alert'' message ''normal'' e3))
                    else (reminders1, e3))
              else (reminders1, e2))"

text \<open>
  \<^verbatim>\<open>check_upgrade_timing\<close>: the table in its insertion order, and the loop over it. The
  cooldown test is the right operand of \<^verbatim>\<open>and\<close>, so it runs (and reads the clock) only
  for a threshold whose time has passed.
\<close>

definition upgrade_timings :: "(int \<times> string) list" where
  "upgrade_timings =
     [(300, ''Consider starting +1 attack/armor upgrades''),
      (480, ''Time for +2 upgrades if +1 is done''),
      (720, ''Consider +3 upgrades if +2 is complete'')]"

fun upgrade_loop :: "env \<Rightarrow> int \<Rightarrow> (int \<times> string) list \<Rightarrow> engine \<Rightarrow> string list \<times> engine" where
  "upgrade_loop ev game_time_seconds [] e = ([], e)"
| "upgrade_loop ev game_time_seconds ((timing, message) # rest) e =
     (if game_time_seconds \<ge> timing then
        (let (ok, e1) = can_send_reminder ev (''upgrade_'' @ str_int timing) e
         in if ok then
              ([message],
               send_notification ev ''Upgrade Reminder'' (sym_up @ '' '' @ message) ''normal'' e1)
            else upgrade_loop ev game_time_seconds rest e1)
      else upgrade_loop ev game_time_seconds rest e)"

definition check_upgrade_timing ::
  "env \<Rightarrow> int \<Rightarrow> (string \<rightharpoonup> int) \<Rightarrow> engine \<Rightarrow> string list \<times> engine" where
  "check_upgrade_timing ev game_time_seconds current_upgrades e =
     upgrade_loop ev game_time_seconds upgrade_timings e"




text \<open>\<^verbatim>\<open>get_commander_tip\<close>, with its table of tips.\<close>

definition tips :: "string \<rightharpoonup> (string \<rightharpoonup> string)" where
  "tips =
     [''Raynor'' \<mapsto>
        [''early'' \<mapsto> ''Focus on orbital command calldowns for early aggression'',
         ''mid'' \<mapsto> ''Build bio ball with medics for sustained push'',
         ''late'' \<mapsto> ''Use battlecruiser calldowns on key targets''],
      ''Kerrigan'' \<mapsto>
        [''early'' \<mapsto> ''Level up Kerrigan quickly with early assaults'',
         ''mid'' \<mapsto> ''Unlock Ultralisk and Omega Worm abilities'',
         ''late'' \<mapsto> ''Use Kerrigan'' @ [CHR 0x27] @ ''s abilities to eliminate high-value targets'']]"

definition get_commander_tip ::
  "env \<Rightarrow> string \<Rightarrow> int \<Rightarrow> string \<Rightarrow> engine \<Rightarrow> string option \<times> engine" where
  "get_commander_tip ev commander_name prestige game_phase e =
     (case tips commander_name of
        None \<Rightarrow> (None, e)
      | Some by_phase \<Rightarrow>
          (case by_phase game_phase of
             None \<Rightarrow> (None, e)
           | Some tip \<Rightarrow>
               (let (ok, e1) = can_send_reminder ev (''commander_tip_'' @ game_phase) e
                in if ok then
                     (Some tip,
                      send_notification ev (commander_name @ '' Tip'') (sym_bulb @ '' '' @ tip)
                        ''normal'' e1)
                   else (None, e1))))"

subsection \<open>One decision cycle\<close>

text \<open>
  A dictionary whose values have different types is a record of optional fields; a key
  that is absent is \<open>None\<close>.
\<close>

record game_state =
  gs_resources :: "(string \<rightharpoonup> int) option"
  gs_supply :: "(string \<rightharpoonup> int) option"
  gs_game_time :: "string option"
  gs_upgrades :: "(string \<rightharpoonup> int) option"
  gs_mode :: "string option"
  gs_warnings :: "string list option"


text \<open>\<^verbatim>\<open>s.split(sep)\<close> for a separator of one character.\<close>

fun split_on :: "char \<Rightarrow> string \<Rightarrow> string list" where
  "split_on sep [] = [[]]"
| "split_on sep (c # cs) =
     (if c = sep then [] # split_on sep cs
      else (case split_on sep cs of
              p # ps \<Rightarrow> (c # p) # ps
            | [] \<Rightarrow> [[c]]))"







text \<open>
  \<^verbatim>\<open>get_reminder_history\<close>: the slice \<^verbatim>\<open>[-limit:]\<close>, which is the whole list
  for a limit of 0 and drops from the front for a negative one.
\<close>

definition get_reminder_history :: "int \<Rightarrow> engine \<Rightarrow> reminder list" where
  "get_reminder_history limit e =
     (if limit > 0 then drop (length (reminder_history e) - nat limit) (reminder_history e)
      else drop (nat (- limit)) (reminder_history e))"

text \<open>\<^verbatim>\<open>clear_cooldowns\<close>\<close>

definition clear_cooldowns :: "engine \<Rightarrow> engine" where
  "clear_cooldowns e = e\<lparr>cooldowns := Map.empty\<rparr>"

section \<open>OCRAnalysis\<close>

text \<open>
  The object's only field is the cache \<^verbatim>\<open>last_known_state\<close>. The OCR itself
  (\<^verbatim>\<open>extract_text\<close>: preprocessing, Tesseract, \<^verbatim>\<open>strip\<close>, the empty string on any
  exception) is a parameter of the model, a function from images to text.
\<close>

record last_known_state =
  minerals :: int
  gas :: int
  supply_used :: int
  supply_cap :: int
  game_time :: string

text \<open>\<^verbatim>\<open>OCRAnalysis.__init__\<close>\<close>

definition init_last_known_state :: last_known_state where
  "init_last_known_state =
     \<lparr> minerals = 0, gas = 0, supply_used = 0, supply_cap = 0, game_time = ''00:00'' \<rparr>"

text \<open>
  \<^verbatim>\<open>re.findall(r'\d+', text)\<close>: the maximal runs of digits, left to right; \<open>cur\<close> is
  the run being read.
\<close>

fun findall_digits :: "string \<Rightarrow> string \<Rightarrow> string list" where
  "findall_digits cur [] = (if cur = [] then [] else [cur])"
| "findall_digits cur (c # cs) =
     (if is_digit c then findall_digits (cur @ [c]) cs
      else if cur = [] then findall_digits [] cs
      else cur # findall_digits [] cs)"

definition extract_numbers :: "string \<Rightarrow> int list" where
  "extract_numbers text = map (\<lambda>n. int (digits_to_nat 0 n)) (findall_digits [] text)"

text \<open>\<^verbatim>\<open>analyze_resources\<close>: the result and the cache afterwards.\<close>

definition analyze_resources ::
  "('img \<Rightarrow> string) \<Rightarrow> 'img \<Rightarrow> last_known_state \<Rightarrow> (string \<rightharpoonup> int) \<times> last_known_state" where
  "analyze_resources extract_text img lks =
     (let text = extract_text img;
          numbers = extract_numbers text;
          result = [''minerals'' \<mapsto> minerals lks, ''gas'' \<mapsto> gas lks]
      in if length numbers \<ge> 2 then
           (result(''minerals'' \<mapsto> numbers ! 0, ''gas'' \<mapsto> numbers ! 1),
            lks\<lparr>minerals := numbers ! 0, gas := numbers ! 1\<rparr>)
         else (result, lks))"

text \<open>
  \<^verbatim>\<open>str.isdigit\<close> accepts, below 256, the ten digits and the superscripts two, three
  and one; \<^verbatim>\<open>int\<close> takes the ten digits only, and raises \<^verbatim>\<open>ValueError\<close> on the
  empty string.
\<close>

definition str_isdigit :: "char \<Rightarrow> bool" where
  "str_isdigit c = (is_digit c \<or> c = CHR 0xB2 \<or> c = CHR 0xB3 \<or> c = CHR 0xB9)"

definition int_of_filtered :: "string \<Rightarrow> int option" where
  "int_of_filtered part =
     (let ds = filter str_isdigit part
      in if ds \<noteq> [] \<and> list_all is_digit ds then Some (int (digits_to_nat 0 ds)) else None)"

text \<open>\<^verbatim>\<open>analyze_supply\<close>\<close>

definition analyze_supply ::
  "('img \<Rightarrow> string) \<Rightarrow> 'img \<Rightarrow> last_known_state \<Rightarrow> (string \<rightharpoonup> int) \<times> last_known_state" where
  "analyze_supply extract_text img lks =
     (let text = extract_text img;
          result = [''supply_used'' \<mapsto> supply_used lks, ''supply_cap'' \<mapsto> supply_cap lks]
      in if CHR ''/'' \<in> set text then
           (let parts = split_on CHR ''/'' text
            in if length parts = 2 then
                 (case int_of_filtered (parts ! 0) of
                    None \<Rightarrow> (result, lks)
                  | Some used \<Rightarrow>
                      (case int_of_filtered (parts ! 1) of
                         None \<Rightarrow> (result, lks)
                       | Some cap \<Rightarrow>
                           (result(''supply_used'' \<mapsto> used, ''supply_cap'' \<mapsto> cap),
                            lks\<lparr>supply_used := used, supply_cap := cap\<rparr>)))
               else (result, lks))
         else (result, lks))"

text \<open>
  \<^verbatim>\<open>re.search(r'(\d{1,2}):(\d{2})', text)\<close>, group 0: the match that starts here, and
  the leftmost match.
\<close>

definition timer_match_here :: "string \<Rightarrow> string option" where
  "timer_match_here s =
     (if length s \<ge> 5 \<and> is_digit (s ! 0) \<and> is_digit (s ! 1) \<and> s ! 2 = CHR '':''
           \<and> is_digit (s ! 3) \<and> is_digit (s ! 4) then Some (take 5 s)
      else if length s \<ge> 4 \<and> is_digit (s ! 0) \<and> s ! 1 = CHR '':''
           \<and> is_digit (s ! 2) \<and> is_digit (s ! 3) then Some (take 4 s)
      else None)"

fun timer_search :: "string \<Rightarrow> string option" where
  "timer_search [] = None"
| "timer_search (c # cs) =
     (case timer_match_here (c # cs) of
        Some m \<Rightarrow> Some m
      | None \<Rightarrow> timer_search cs)"

text \<open>\<^verbatim>\<open>analyze_game_time\<close>\<close>

definition analyze_game_time ::
  "('img \<Rightarrow> string) \<Rightarrow> 'img \<Rightarrow> last_known_state \<Rightarrow> string \<times> last_known_state" where
  "analyze_game_time extract_text img lks =
     (case timer_search (extract_text img) of
        Some t \<Rightarrow> (t, lks\<lparr>game_time := t\<rparr>)
      | None \<Rightarrow> (game_time lks, lks))"

text \<open>\<^verbatim>\<open>detect_supply_block\<close>, the quotient a float as in \<open>check_supply\<close>.\<close>

definition detect_supply_block :: "(string \<rightharpoonup> int) \<Rightarrow> real \<Rightarrow> bool" where
  "detect_supply_block supply_data threshold =
     (let used = dict_get supply_data ''supply_used'' 0;
          cap = dict_get supply_data ''supply_cap'' 200
      in if cap = 0 then False
         else float_ge (true_div used cap) threshold)"

text \<open>\<^verbatim>\<open>detect_resource_overflow\<close>\<close>

definition detect_resource_overflow :: "(string \<rightharpoonup> int) \<Rightarrow> int \<Rightarrow> string list" where
  "detect_resource_overflow resource_data threshold =
     (let m = dict_get resource_data ''minerals'' 0;
          g = dict_get resource_data ''gas'' 0
      in (if m > threshold then [''minerals''] else [])
         @ (if g > threshold then [''gas''] else []))"

text \<open>
  \<^verbatim>\<open>get_game_state\<close>: an image that is \<^verbatim>\<open>None\<close> leaves its entry of the initial
  dictionary in place. The calls use the default thresholds 0.9 and 1000.
\<close>

definition get_game_state ::
  "('img \<Rightarrow> string) \<Rightarrow> 'img option \<Rightarrow> 'img option \<Rightarrow> 'img option \<Rightarrow> last_known_state
     \<Rightarrow> game_state \<times> last_known_state" where
  "get_game_state extract_text resource_img supply_img timer_img lks =
     (let (res, lks1) =
            (case resource_img of
               Some img \<Rightarrow> analyze_resources extract_text img lks
             | None \<Rightarrow> ([''minerals'' \<mapsto> 0, ''gas'' \<mapsto> 0], lks));
          (sup, lks2) =
            (case supply_img of
               Some img \<Rightarrow> analyze_supply extract_text img lks1
             | None \<Rightarrow> ([''supply_used'' \<mapsto> 0, ''supply_cap'' \<mapsto> 200], lks1));
          (gt, lks3) =
            (case timer_img of
               Some img \<Rightarrow> analyze_game_time extract_text img lks2
             | None \<Rightarrow> (''00:00'', lks2));
          warnings1 = (if detect_supply_block sup (double_literal (9 / 10))
                       then [''supply_block''] else []);
          overflow = detect_resource_overflow res 1000
      in (\<lparr> gs_resources = Some res, gs_supply = Some sup, gs_game_time = Some gt,
            gs_upgrades = None, gs_mode = None,
            gs_warnings = Some (warnings1 @ map (\<lambda>r. r @ ''_overflow'') overflow) \<rparr>,
          lks3))"

section \<open>Notions used in the statements\<close>

text \<open>The value a snapshot carries under a key of one of its inner dictionaries.\<close>

definition reading :: "(string \<rightharpoonup> int) option \<Rightarrow> string \<Rightarrow> int option" where
  "reading d k = (case d of Some m \<Rightarrow> m k | None \<Rightarrow> None)"

text \<open>
  The number of maximal digit runs of a text, counted without building them: a run starts
  at each digit that does not follow a digit. \<open>prev\<close> tells whether the character before
  was a digit.
\<close>

fun digit_runs_from :: "bool \<Rightarrow> string \<Rightarrow> nat" where
  "digit_runs_from prev [] = 0"
| "digit_runs_from prev (c # cs) =
     (if is_digit c \<and> \<not> prev then 1 else 0) + digit_runs_from (is_digit c) cs"

definition digit_run_count :: "string \<Rightarrow> nat" where
  "digit_run_count tx = digit_runs_from False tx"

text \<open>
  The way every check fires an advisory:
  \<^verbatim>\<open>if self._can_send_reminder(key): self._send_notification(title, message, urgency)\<close>.
  An attempt is the key with the three arguments of the notification. A run of attempts
  returns, for each attempt, its key, the clock reading its cooldown test took and whether
  it fired.
\<close>

type_synonym attempt = "string \<times> string \<times> string \<times> string"

definition fire_attempt :: "env \<Rightarrow> attempt \<Rightarrow> engine \<Rightarrow> bool \<times> engine" where
  "fire_attempt ev a e =
     (case a of (key, title, message, urgency) \<Rightarrow>
        (let (ok, e1) = can_send_reminder ev key e
         in if ok then (True, send_notification ev title message urgency e1)
            else (False, e1)))"

fun run_attempts ::
  "env \<Rightarrow> attempt list \<Rightarrow> engine \<Rightarrow> (string \<times> real \<times> bool) list \<times> engine" where
  "run_attempts ev [] e = ([], e)"
| "run_attempts ev (a # rest) e =
     (let (ok, e1) = fire_attempt ev a e;
          (log, e2) = run_attempts ev rest e1
      in ((fst a, clock ev (time_calls e), ok) # log, e2))"

text \<open>A collaborator environment for the concrete runs: the clock advances 10 seconds a reading.\<close>

definition test_env :: env where
  "test_env = \<lparr> clock = (\<lambda>n. 1000 + 10 * real n),
                 stamp = (\<lambda>n. ''2024-01-01T00:00:00''),
                 notify_raises = (\<lambda>n. False) \<rparr>"

text \<open>
  A collaborator environment whose first two clock readings are the doubles nearest to 0.7
  and to 30.7.
\<close>

definition early_env :: env where
  "early_env = \<lparr> clock = (\<lambda>n. if n = 0 then 3152519739159347 / 2 ^ 52
                                else 8641281785017139 / 2 ^ 48),
                  stamp = (\<lambda>n. ''1970-01-01T00:00:00''),
                  notify_raises = (\<lambda>n. False) \<rparr>"

section \<open>Properties of the rounding\<close>



lemma rne_0 [simp]: "rne 0 = 0"
  by (simp add: rne_def)


lemma find_exp_range: "e \<le> find_exp fuel e x \<and> find_exp fuel e x \<le> e + int fuel"
proof (induction fuel e x rule: find_exp.induct)
  case (1 fuel e x)
  show ?case
  proof (cases "fuel = 0 \<or> \<bar>x\<bar> < 2 powi (e + 53)")
    case True
    then show ?thesis by (simp add: find_exp.simps [of fuel e x])
  next
    case False
    with 1 have "e + 1 \<le> find_exp (fuel - 1) (e + 1) x
                 \<and> find_exp (fuel - 1) (e + 1) x \<le> e + 1 + int (fuel - 1)" by simp
    with False show ?thesis by (simp add: find_exp.simps [of fuel e x])
  qed
qed

lemma find_exp_below:
  "find_exp fuel e x < e + int fuel \<Longrightarrow> \<bar>x\<bar> < 2 powi (find_exp fuel e x + 53)"
proof (induction fuel e x rule: find_exp.induct)
  case (1 fuel e x)
  show ?case
  proof (cases "fuel = 0 \<or> \<bar>x\<bar> < 2 powi (e + 53)")
    case True
    with "1.prems" show ?thesis by (auto simp add: find_exp.simps [of fuel e x])
  next
    case False
    then have eq: "find_exp fuel e x = find_exp (fuel - 1) (e + 1) x"
      by (simp add: find_exp.simps [of fuel e x])
    from False "1.prems" have "find_exp (fuel - 1) (e + 1) x < e + 1 + int (fuel - 1)"
      by (simp add: eq)
    with 1 False show ?thesis by (simp add: eq)
  qed
qed

lemma find_exp_least:
  "e \<le> E \<Longrightarrow> \<bar>x\<bar> < 2 powi (E + 53) \<Longrightarrow> find_exp fuel e x \<le> E"
proof (induction fuel e x rule: find_exp.induct)
  case (1 fuel e x)
  show ?case
  proof (cases "fuel = 0 \<or> \<bar>x\<bar> < 2 powi (e + 53)")
    case True
    with "1.prems" show ?thesis by (simp add: find_exp.simps [of fuel e x])
  next
    case False
    then have eq: "find_exp fuel e x = find_exp (fuel - 1) (e + 1) x"
      by (simp add: find_exp.simps [of fuel e x])
    from False "1.prems" have "e \<noteq> E" by auto
    with "1.prems" have "e + 1 \<le> E" by simp
    with 1 False "1.prems" show ?thesis by (simp add: eq)
  qed
qed


lemma double_exp_range: "- 1074 \<le> double_exp x \<and> double_exp x \<le> 971"
  using find_exp_range [of "- 1074" 2045 x] by (simp add: double_exp_def)

lemma double_exp_below: "double_exp x < 971 \<Longrightarrow> \<bar>x\<bar> < 2 powi (double_exp x + 53)"
  using find_exp_below [of 2045 "- 1074" x] by (simp add: double_exp_def)

lemma double_exp_least: "- 1074 \<le> E \<Longrightarrow> \<bar>x\<bar> < 2 powi (E + 53) \<Longrightarrow> double_exp x \<le> E"
  by (simp add: double_exp_def find_exp_least)


lemma double_exp_eq:
  assumes "- 1074 \<le> E" and "E \<le> 971" and "2 powi (E + 52) \<le> \<bar>x\<bar>" and "\<bar>x\<bar> < 2 powi (E + 53)"
  shows "double_exp x = E"
proof -
  have le: "double_exp x \<le> E" using assms(1,4) by (rule double_exp_least)
  have "\<not> double_exp x < E"
  proof
    assume lt: "double_exp x < E"
    with assms(2) have "double_exp x < 971" by simp
    then have "\<bar>x\<bar> < 2 powi (double_exp x + 53)" by (rule double_exp_below)
    also from lt have "(2::real) powi (double_exp x + 53) \<le> 2 powi (E + 52)"
      by (intro power_int_increasing) simp_all
    finally show False using assms(3) by simp
  qed
  with le show ?thesis by simp
qed



lemma round_double_at:
  assumes "- 1074 \<le> E" and "E \<le> 971" and "2 powi (E + 52) \<le> \<bar>x\<bar>" and "\<bar>x\<bar> < 2 powi (E + 53)"
  shows "round_double x =
           (if E = 971 \<and> rne (x / 2 powi E) \<ge> 2 ^ 53 then PosInf
            else if E = 971 \<and> rne (x / 2 powi E) \<le> - (2 ^ 53) then NegInf
            else Fin (of_int (rne (x / 2 powi E)) * 2 powi E))"
  using double_exp_eq [OF assms] by (simp add: round_double_def Let_def)

lemma round_double_tiny:
  assumes "\<bar>x\<bar> < 2 powi (- 1021)"
  shows "round_double x = Fin (of_int (rne (x / 2 powi (- 1074))) * 2 powi (- 1074))"
proof -
  have "double_exp x \<le> - 1074" using assms by (intro double_exp_least) simp_all
  with double_exp_range [of x] have "double_exp x = - 1074" by simp
  then show ?thesis by (simp add: round_double_def Let_def)
qed

lemma round_double_0 [simp]: "round_double 0 = Fin 0"
  by (simp add: round_double_tiny)





lemma rne_eval:
  "rne y = (if y - of_int \<lfloor>y\<rfloor> < 1 / 2 then \<lfloor>y\<rfloor>
            else if y - of_int \<lfloor>y\<rfloor> > 1 / 2 then \<lfloor>y\<rfloor> + 1
            else if even \<lfloor>y\<rfloor> then \<lfloor>y\<rfloor> else \<lfloor>y\<rfloor> + 1)"
  by (simp add: rne_def Let_def)

text \<open>The float literals of the program, and the roundings the concrete runs meet.\<close>

lemma literal_19_20: "double_literal (19 / 20) = 4278419646001971 / 2 ^ 52"
  unfolding double_literal_def
  by (subst round_double_at [where E = "- 53"]) (simp_all add: rne_eval)

lemma literal_17_20: "double_literal (17 / 20) = 7656119366529843 / 2 ^ 53"
  unfolding double_literal_def
  by (subst round_double_at [where E = "- 53"]) (simp_all add: rne_eval)

lemma literal_9_10: "double_literal (9 / 10) = 8106479329266893 / 2 ^ 53"
  unfolding double_literal_def
  by (subst round_double_at [where E = "- 53"]) (simp_all add: rne_eval)






lemma true_div_190_200: "true_div 190 200 = Fin (4278419646001971 / 2 ^ 52)"
  unfolding true_div_def
  by (subst round_double_at [where E = "- 53"]) (simp_all add: rne_eval)

lemma true_div_180_200: "true_div 180 200 = Fin (8106479329266893 / 2 ^ 53)"
  unfolding true_div_def
  by (subst round_double_at [where E = "- 53"]) (simp_all add: rne_eval)

lemma true_div_large:
  "true_div 84999999999999999 100000000000000000 = Fin (7656119366529843 / 2 ^ 53)"
  unfolding true_div_def
  by (subst round_double_at [where E = "- 53"]) (simp_all add: rne_eval)








section \<open>Properties of the synthesizer\<close>

lemma analyze_resources_frame:
  "supply_used (snd (analyze_resources x i l)) = supply_used l
   \<and> supply_cap (snd (analyze_resources x i l)) = supply_cap l
   \<and> game_time (snd (analyze_resources x i l)) = game_time l"
  by (simp add: analyze_resources_def Let_def)

lemma analyze_supply_frame:
  "minerals (snd (analyze_supply x i l)) = minerals l
   \<and> gas (snd (analyze_supply x i l)) = gas l
   \<and> game_time (snd (analyze_supply x i l)) = game_time l"
  by (simp add: analyze_supply_def Let_def split: option.splits)

lemma analyze_game_time_frame:
  "minerals (snd (analyze_game_time x i l)) = minerals l
   \<and> gas (snd (analyze_game_time x i l)) = gas l
   \<and> supply_used (snd (analyze_game_time x i l)) = supply_used l
   \<and> supply_cap (snd (analyze_game_time x i l)) = supply_cap l"
  by (simp add: analyze_game_time_def split: option.splits)

text \<open>
  C1, as the code has it: a region whose image is \<^verbatim>\<open>None\<close> is skipped, its part of
  the cache stays as it was, and the snapshot carries the fixed entries of the initial
  dictionary for it (minerals 0 and gas 0; supply 0 of 200; time 00:00), whatever the
  cache holds.
\<close>

theorem absent_region_defaults:
  "(gs_resources (fst (get_game_state x None s t l)) = Some [''minerals'' \<mapsto> 0, ''gas'' \<mapsto> 0]
    \<and> minerals (snd (get_game_state x None s t l)) = minerals l
    \<and> gas (snd (get_game_state x None s t l)) = gas l)
   \<and> (gs_supply (fst (get_game_state x r None t l))
        = Some [''supply_used'' \<mapsto> 0, ''supply_cap'' \<mapsto> 200]
    \<and> supply_used (snd (get_game_state x r None t l)) = supply_used l
    \<and> supply_cap (snd (get_game_state x r None t l)) = supply_cap l)
   \<and> (gs_game_time (fst (get_game_state x r s None l)) = Some ''00:00''
    \<and> game_time (snd (get_game_state x r s None l)) = game_time l)"
  by (simp add: get_game_state_def Let_def split_beta analyze_supply_frame
        analyze_resources_frame analyze_game_time_frame split: option.splits)

text \<open>
  C1 as stated fails: a cycle that parses 500 minerals and 300 gas fills the cache, and the
  next cycle, with no resource image, reports 0 minerals, not the cached 500.
\<close>

theorem absent_region_counterexample:
  "snd (get_game_state id (Some ''500 300'') None None init_last_known_state)
     = \<lparr> minerals = 500, gas = 300, supply_used = 0, supply_cap = 0, game_time = ''00:00'' \<rparr>
   \<and> reading (gs_resources (fst (get_game_state id None None None
        \<lparr> minerals = 500, gas = 300, supply_used = 0, supply_cap = 0, game_time = ''00:00'' \<rparr>)))
       ''minerals'' = Some 0"
  by (simp add: get_game_state_def analyze_resources_def extract_numbers_def
        init_last_known_state_def reading_def is_digit_def digit_val_def Let_def)

text \<open>
  C4 at its failing input: a new engine whose supply image yields text without a slash.
  The parse fails, the cache was never filled, and the snapshot reports a supply cap of 0,
  the value \<^verbatim>\<open>__init__\<close> put in the cache. The same new engine reports 200, the
  baseline of the snapshot, when the supply image is absent.
\<close>

theorem fresh_cache_supply_cap_zero:
  "reading (gs_supply (fst (get_game_state id None (Some ''abc'') None init_last_known_state)))
     ''supply_cap'' = Some 0
   \<and> reading (gs_supply (fst (get_game_state id None None None init_last_known_state)))
     ''supply_cap'' = Some 200"
  by (simp add: get_game_state_def analyze_supply_def init_last_known_state_def reading_def
        Let_def)

lemma length_findall_digits:
  "length (findall_digits cur tx)
     = (if cur = [] then digit_runs_from False tx else 1 + digit_runs_from True tx)"
  by (induction tx arbitrary: cur) auto

lemma length_extract_numbers: "length (extract_numbers tx) = digit_run_count tx"
  by (simp add: extract_numbers_def digit_run_count_def length_findall_digits)

text \<open>
  C9: when the text read from the resource image has fewer than two digit runs, fewer than
  two numbers are extracted, \<open>analyze_resources\<close> returns the cached minerals and gas and
  leaves the whole cache as it was; the snapshot carries the cached pair, and the cycle
  leaves the cached minerals and gas unchanged whatever the other two regions yield.
\<close>

theorem too_few_digit_runs_keeps_cache:
  assumes "digit_run_count (extract_text img) < 2"
  shows "length (extract_numbers (extract_text img)) < 2
         \<and> analyze_resources extract_text img lks
             = ([''minerals'' \<mapsto> minerals lks, ''gas'' \<mapsto> gas lks], lks)
         \<and> gs_resources (fst (get_game_state extract_text (Some img) s t lks))
             = Some [''minerals'' \<mapsto> minerals lks, ''gas'' \<mapsto> gas lks]
         \<and> minerals (snd (get_game_state extract_text (Some img) s t lks)) = minerals lks
         \<and> gas (snd (get_game_state extract_text (Some img) s t lks)) = gas lks"
  using assms
  by (simp add: length_extract_numbers analyze_resources_def get_game_state_def Let_def
        split_beta analyze_supply_frame analyze_game_time_frame split: option.splits)

theorem too_few_digit_runs_keeps_cache_witness:
  "digit_run_count (id ''gas 75'') < 2
   \<and> analyze_resources id ''gas 75''
        \<lparr> minerals = 500, gas = 300, supply_used = 10, supply_cap = 20, game_time = ''01:00'' \<rparr>
      = ([''minerals'' \<mapsto> 500, ''gas'' \<mapsto> 300],
         \<lparr> minerals = 500, gas = 300, supply_used = 10, supply_cap = 20, game_time = ''01:00'' \<rparr>)"
  using too_few_digit_runs_keeps_cache [of id "''gas 75''"
     "\<lparr> minerals = 500, gas = 300, supply_used = 10, supply_cap = 20, game_time = ''01:00'' \<rparr>"]
  by (simp add: digit_run_count_def is_digit_def)

section \<open>Properties of the reminder engine\<close>

lemmas engine_defs = can_send_reminder_def send_notification_def init_engine_def init_config_def
  dict_get_def Let_def

lemmas text_defs = str_int_def str_nat.simps digit_char_def is_digit_def digit_val_def

subsection \<open>What the two primitives change\<close>

lemma can_send_fields [simp]:
  "time_calls (snd (can_send_reminder ev k e)) = Suc (time_calls e)"
  "default_cooldown (snd (can_send_reminder ev k e)) = default_cooldown e"
  "config (snd (can_send_reminder ev k e)) = config e"
  "enable_notifications (snd (can_send_reminder ev k e)) = enable_notifications e"
  "reminder_history (snd (can_send_reminder ev k e)) = reminder_history e"
  "notify_log (snd (can_send_reminder ev k e)) = notify_log e"
  by (simp_all add: can_send_reminder_def Let_def split: option.splits)

lemma can_send_cooldowns:
  "cooldowns (snd (can_send_reminder ev k e)) k'
     = (if k' = k \<and> fst (can_send_reminder ev k e) then Some (clock ev (time_calls e))
        else cooldowns e k')"
  by (simp add: can_send_reminder_def Let_def split: option.splits)

lemma can_send_fst:
  "fst (can_send_reminder ev k e)
     = (case cooldowns e k of
          None \<Rightarrow> True
        | Some last_time \<Rightarrow>
            \<not> float_lt (float_sub (clock ev (time_calls e)) last_time) (default_cooldown e))"
  by (simp add: can_send_reminder_def Let_def split: option.splits)

lemma send_notification_fields [simp]:
  "time_calls (send_notification ev t m u e) = time_calls e"
  "default_cooldown (send_notification ev t m u e) = default_cooldown e"
  "config (send_notification ev t m u e) = config e"
  "enable_notifications (send_notification ev t m u e) = enable_notifications e"
  "cooldowns (send_notification ev t m u e) = cooldowns e"
  by (simp_all add: send_notification_def Let_def)

lemma send_notification_history:
  "reminder_history (send_notification ev t m u e)
     = (if enable_notifications e
        then reminder_history e @ [\<lparr> r_timestamp = stamp ev (length (reminder_history e)),
               r_type = t, r_message = m, r_urgency = u \<rparr>]
        else reminder_history e)"
  by (simp add: send_notification_def Let_def)

lemma send_notification_log:
  "notify_log (send_notification ev t m u e)
     = (if enable_notifications e
        then notify_log e @ [(t, m, notify_raises ev (length (notify_log e)))]
        else notify_log e)"
  by (simp add: send_notification_def Let_def)

lemma can_send_fst_cong:
  "cooldowns e' k = cooldowns e k \<Longrightarrow> time_calls e' = time_calls e
   \<Longrightarrow> default_cooldown e' = default_cooldown e
   \<Longrightarrow> fst (can_send_reminder ev k e') = fst (can_send_reminder ev k e)"
  by (simp add: can_send_fst split: option.splits)

subsection \<open>Emission\<close>

text \<open>
  C3 at its failing input: an engine built with notifications disabled. The supply check
  fires the critical advisory and returns its message, and the history stays empty: the
  early return of \<open>send_notification\<close> comes before the history record. The same call on
  an engine with notifications enabled leaves one record.
\<close>

theorem disabled_engine_drops_history:
  "fst (check_supply ev [''supply_used'' \<mapsto> 190, ''supply_cap'' \<mapsto> 200] (init_engine False))
     = Some (sym_warning @ '' SUPPLY BLOCKED! 190/200'')
   \<and> reminder_history
       (snd (check_supply ev [''supply_used'' \<mapsto> 190, ''supply_cap'' \<mapsto> 200]
              (init_engine False)))
     = []
   \<and> map r_type (reminder_history
       (snd (check_supply ev [''supply_used'' \<mapsto> 190, ''supply_cap'' \<mapsto> 200]
              (init_engine True))))
     = [''Supply Critical'']"
  by (simp add: check_supply_def engine_defs text_defs true_div_190_200 literal_19_20
        float_ge_def)

text \<open>
  With notifications enabled the record is appended whether the notifier raises or not.
\<close>

lemma send_notification_enabled:
  "enable_notifications e \<Longrightarrow>
   reminder_history (send_notification ev title message urgency e)
     = reminder_history e @ [\<lparr> r_timestamp = stamp ev (length (reminder_history e)),
          r_type = title, r_message = message, r_urgency = urgency \<rparr>]"
  by (simp add: send_notification_def Let_def)

subsection \<open>Cooldown\<close>


text \<open>Two of the checks, as instances of the pattern.\<close>

lemma commander_tip_is_attempt:
  assumes "tips commander_name = Some by_phase" and "by_phase game_phase = Some tip"
  shows "snd (get_commander_tip ev commander_name prestige game_phase e)
           = snd (fire_attempt ev (''commander_tip_'' @ game_phase, commander_name @ '' Tip'',
                    sym_bulb @ '' '' @ tip, ''normal'') e)
         \<and> (fst (get_commander_tip ev commander_name prestige game_phase e) \<noteq> None)
           = fst (fire_attempt ev (''commander_tip_'' @ game_phase, commander_name @ '' Tip'',
                    sym_bulb @ '' '' @ tip, ''normal'') e)"
  using assms by (simp add: get_commander_tip_def fire_attempt_def split_beta)

lemma upgrade_loop_is_attempt:
  "timing \<le> game_time_seconds \<Longrightarrow> fst (can_send_reminder ev (''upgrade_'' @ str_int timing) e) \<Longrightarrow>
   snd (upgrade_loop ev game_time_seconds ((timing, message) # tbl) e)
     = snd (fire_attempt ev (''upgrade_'' @ str_int timing, ''Upgrade Reminder'',
              sym_up @ '' '' @ message, ''normal'') e)"
  by (simp add: fire_attempt_def split_beta)

lemma fire_attempt_fields [simp]:
  "time_calls (snd (fire_attempt ev a e)) = Suc (time_calls e)"
  "default_cooldown (snd (fire_attempt ev a e)) = default_cooldown e"
  "enable_notifications (snd (fire_attempt ev a e)) = enable_notifications e"
  by (cases a; simp add: fire_attempt_def split_beta)+



lemma run_attempts_fields [simp]:
  "default_cooldown (snd (run_attempts ev rest e)) = default_cooldown e"
  "enable_notifications (snd (run_attempts ev rest e)) = enable_notifications e"
  by (induction rest arbitrary: e; simp add: split_beta)+





text \<open>
  C5 as stated fails by the rounding of the subtraction: the clock reads the double nearest
  to 0.7 at a firing and the double nearest to 30.7 at the next attempt on the same key. The
  two readings are less than 30 seconds apart, their float difference is 30.0, and the
  advisory fires a second time inside the window of 30 seconds.
\<close>

theorem cooldown_window_counterexample:
  "clock early_env 1 - clock early_env 0 < 30
   \<and> fst (fire_attempt early_env (''supply_warning'', ''Build Supply'', ''low'', ''normal'')
         (init_engine True))
   \<and> fst (fire_attempt early_env (''supply_warning'', ''Build Supply'', ''low'', ''normal'')
         (snd (fire_attempt early_env (''supply_warning'', ''Build Supply'', ''low'', ''normal'')
                (init_engine True))))
   \<and> length (reminder_history
         (snd (fire_attempt early_env (''supply_warning'', ''Build Supply'', ''low'', ''normal'')
           (snd (fire_attempt early_env (''supply_warning'', ''Build Supply'', ''low'', ''normal'')
                  (init_engine True)))))) = 2"
proof -
  have near: "clock early_env 1 - clock early_env 0 < 30"
    by (simp add: early_env_def)
  have diff: "float_sub (clock early_env (Suc 0)) (clock early_env 0) = Fin 30"
    unfolding float_sub_def early_env_def
    by (subst round_double_at [where E = "- 48"]) (simp_all add: rne_eval)
  have run: "fst (fire_attempt early_env (''supply_warning'', ''Build Supply'', ''low'', ''normal'')
         (init_engine True))
   \<and> fst (fire_attempt early_env (''supply_warning'', ''Build Supply'', ''low'', ''normal'')
         (snd (fire_attempt early_env (''supply_warning'', ''Build Supply'', ''low'', ''normal'')
                (init_engine True))))
   \<and> length (reminder_history
         (snd (fire_attempt early_env (''supply_warning'', ''Build Supply'', ''low'', ''normal'')
           (snd (fire_attempt early_env (''supply_warning'', ''Build Supply'', ''low'', ''normal'')
                  (init_engine True)))))) = 2"
    by (simp add: fire_attempt_def engine_defs diff float_lt_def)
  from near run show ?thesis by blast
qed

subsection \<open>Supply\<close>



text \<open>
  C7 as stated fails on large readings by the rounding of the quotient: 84999999999999999
  of 100000000000000000 is a ratio below 0.85, its double is the double of 0.85, and the
  warning advisory fires.
\<close>

theorem supply_tiers_counterexample:
  "real_of_int 84999999999999999 / real_of_int 100000000000000000 < 85 / 100
   \<and> fst (check_supply test_env
            [''supply_used'' \<mapsto> 84999999999999999, ''supply_cap'' \<mapsto> 100000000000000000]
            (init_engine True))
       = Some (sym_warning @ '' Supply Warning: 84999999999999999/100000000000000000'')"
  by (simp add: check_supply_def engine_defs text_defs true_div_large literal_19_20
        literal_17_20 float_ge_def)

subsection \<open>Resources\<close>

text \<open>
  C8: for an engine with the overflow threshold 1000 of the constructor: below 180 seconds
  the check returns nothing and leaves the engine as it was, whatever the resources; from
  180 seconds on, the mineral advisory fires when minerals exceed 1000 and the key
  \<open>mineral_overflow\<close> permits, the gas advisory when gas exceeds 1000 and the key
  \<open>gas_overflow\<close> permits at its own clock reading, neither depending on the other. With
  notifications enabled each message returned is one history record of type Resource Alert.
  At 60 seconds 1500 minerals yield no advisory; at 200 seconds, the mineral key never
  fired, they yield exactly the mineral advisory.
\<close>

theorem resource_gate:
  fixes resource_data :: "string \<rightharpoonup> int" and ev :: env and e :: engine
    and game_time_seconds :: int
  defines "m \<equiv> dict_get resource_data ''minerals'' 0"
      and "g \<equiv> dict_get resource_data ''gas'' 0"
  defines "R \<equiv> check_resources ev resource_data game_time_seconds e"
  assumes cfg: "resource_overflow_threshold (config e) = 1000"
  shows "(game_time_seconds < 180 \<longrightarrow> R = ([], e))
       \<and> (180 \<le> game_time_seconds \<longrightarrow>
            fst R
              = (if m > 1000 \<and> fst (can_send_reminder ev ''mineral_overflow'' e)
                 then [sym_gem @ '' High minerals: '' @ str_int m @ '' - Expand or build army!'']
                 else [])
                @ (if g > 1000
                      \<and> fst (can_send_reminder ev ''gas_overflow''
                               (e\<lparr>time_calls := time_calls e + (if m > 1000 then 1 else 0)\<rparr>))
                   then [sym_fuel @ '' High gas: '' @ str_int g
                           @ '' - Tech up or build advanced units!'']
                   else []))
       \<and> (enable_notifications e \<longrightarrow>
            map r_message (reminder_history (snd R)) = map r_message (reminder_history e) @ fst R
            \<and> map r_type (reminder_history (snd R))
                = map r_type (reminder_history e) @ replicate (length (fst R)) ''Resource Alert'')
       \<and> fst (check_resources ev [''minerals'' \<mapsto> 1500] 60 e) = []
       \<and> (cooldowns e ''mineral_overflow'' = None \<longrightarrow>
            fst (check_resources ev [''minerals'' \<mapsto> 1500] 200 e)
              = [sym_gem @ '' High minerals: 1500 - Expand or build army!''])"
proof -
  have gas_test:
    "fst (can_send_reminder ev ''gas_overflow''
            (send_notification ev t msg u (snd (can_send_reminder ev ''mineral_overflow'' e))))
       = fst (can_send_reminder ev ''gas_overflow'' (e\<lparr>time_calls := Suc (time_calls e)\<rparr>))"
    "fst (can_send_reminder ev ''gas_overflow'' (snd (can_send_reminder ev ''mineral_overflow'' e)))
       = fst (can_send_reminder ev ''gas_overflow'' (e\<lparr>time_calls := Suc (time_calls e)\<rparr>))"
    for t msg u
    by (rule can_send_fst_cong; simp add: can_send_cooldowns)+
  have c0: "game_time_seconds < 180 \<longrightarrow> R = ([], e)"
    by (simp add: R_def check_resources_def Let_def)
  have c1: "180 \<le> game_time_seconds \<longrightarrow>
            fst R
              = (if m > 1000 \<and> fst (can_send_reminder ev ''mineral_overflow'' e)
                 then [sym_gem @ '' High minerals: '' @ str_int m @ '' - Expand or build army!'']
                 else [])
                @ (if g > 1000
                      \<and> fst (can_send_reminder ev ''gas_overflow''
                               (e\<lparr>time_calls := time_calls e + (if m > 1000 then 1 else 0)\<rparr>))
                   then [sym_fuel @ '' High gas: '' @ str_int g
                           @ '' - Tech up or build advanced units!'']
                   else [])"
    using cfg
    by (simp add: R_def check_resources_def m_def g_def Let_def split_beta gas_test)
  have c2: "enable_notifications e \<longrightarrow>
            map r_message (reminder_history (snd R)) = map r_message (reminder_history e) @ fst R
            \<and> map r_type (reminder_history (snd R))
                = map r_type (reminder_history e) @ replicate (length (fst R)) ''Resource Alert''"
    by (simp add: R_def check_resources_def Let_def split_beta send_notification_history)
  have c3: "fst (check_resources ev [''minerals'' \<mapsto> 1500] 60 e) = []"
    by (simp add: check_resources_def Let_def)
  have c4: "cooldowns e ''mineral_overflow'' = None \<longrightarrow>
            fst (check_resources ev [''minerals'' \<mapsto> 1500] 200 e)
              = [sym_gem @ '' High minerals: 1500 - Expand or build army!'']"
    using cfg
    by (simp add: check_resources_def dict_get_def Let_def split_beta can_send_fst
          str_int_def str_nat.simps digit_char_def)
  from c0 c1 c2 c3 c4 show ?thesis by blast
qed

theorem resource_gate_witness:
  "resource_overflow_threshold (config (init_engine True)) = 1000
   \<and> check_resources test_env [''minerals'' \<mapsto> 1500] 60 (init_engine True)
       = ([], init_engine True)
   \<and> fst (check_resources test_env [''minerals'' \<mapsto> 1500] 200 (init_engine True))
       = [sym_gem @ '' High minerals: 1500 - Expand or build army!'']
   \<and> map r_type (reminder_history
        (snd (check_resources test_env [''minerals'' \<mapsto> 1500] 200 (init_engine True))))
       = [''Resource Alert'']"
proof -
  have cfg: "resource_overflow_threshold (config (init_engine True)) = 1000"
    by (simp add: init_engine_def init_config_def)
  have en: "enable_notifications (init_engine True)"
    by (simp add: init_engine_def)
  show ?thesis
    using cfg en
      resource_gate [OF cfg, where resource_data = "[''minerals'' \<mapsto> 1500]" and ev = test_env
        and game_time_seconds = 60]
      resource_gate [OF cfg, where resource_data = "[''minerals'' \<mapsto> 1500]" and ev = test_env
        and game_time_seconds = 200]
    by (simp add: dict_get_def can_send_fst init_engine_def
          str_int_def str_nat.simps digit_char_def)
qed

subsection \<open>Upgrades\<close>

lemma upgrade_keys:
  "str_int 300 = ''300''" "str_int 480 = ''480''" "str_int 720 = ''720''"
  by (simp_all add: str_int_def str_nat.simps digit_char_def)

text \<open>
  C6: the upgrade check tests the thresholds 300, 480 and 720 in this order and returns at
  most one message: that of the first threshold whose time has passed and whose key
  \<open>upgrade_300\<close>, \<open>upgrade_480\<close>, \<open>upgrade_720\<close> permits at the clock reading of its
  test. When the first threshold fires the scan stops: one clock reading was taken and the
  keys of the later thresholds are as before. With notifications enabled the message
  returned is one history record and one notifier call. At 500 seconds, on an engine where
  the key \<open>upgrade_300\<close> never fired, exactly the advisory of the 300 second threshold
  fires.
\<close>

theorem upgrade_scan:
  fixes ev :: env and e :: engine and game_time_seconds :: int
    and current_upgrades :: "string \<rightharpoonup> int"
  defines "R \<equiv> check_upgrade_timing ev game_time_seconds current_upgrades e"
  shows "fst R
           = (if game_time_seconds \<ge> 300 \<and> fst (can_send_reminder ev ''upgrade_300'' e)
              then [''Consider starting +1 attack/armor upgrades'']
              else if game_time_seconds \<ge> 480
                      \<and> fst (can_send_reminder ev ''upgrade_480''
                               (e\<lparr>time_calls := Suc (time_calls e)\<rparr>))
              then [''Time for +2 upgrades if +1 is done'']
              else if game_time_seconds \<ge> 720
                      \<and> fst (can_send_reminder ev ''upgrade_720''
                               (e\<lparr>time_calls := Suc (Suc (time_calls e))\<rparr>))
              then [''Consider +3 upgrades if +2 is complete'']
              else [])
       \<and> length (fst R) \<le> 1
       \<and> (game_time_seconds \<ge> 300 \<and> fst (can_send_reminder ev ''upgrade_300'' e) \<longrightarrow>
            time_calls (snd R) = Suc (time_calls e)
            \<and> cooldowns (snd R) ''upgrade_480'' = cooldowns e ''upgrade_480''
            \<and> cooldowns (snd R) ''upgrade_720'' = cooldowns e ''upgrade_720'')
       \<and> (enable_notifications e \<longrightarrow>
            map r_message (reminder_history (snd R))
              = map r_message (reminder_history e) @ map (\<lambda>msg. sym_up @ '' '' @ msg) (fst R)
            \<and> length (notify_log (snd R)) = length (notify_log e) + length (fst R))
       \<and> (cooldowns e ''upgrade_300'' = None \<longrightarrow>
            fst (check_upgrade_timing ev 500 current_upgrades e)
              = [''Consider starting +1 attack/armor upgrades''])"
proof -
  let ?e1 = "snd (can_send_reminder ev ''upgrade_300'' e)"
  let ?e2 = "snd (can_send_reminder ev ''upgrade_480'' ?e1)"
  have t480: "fst (can_send_reminder ev ''upgrade_480'' ?e1)
        = fst (can_send_reminder ev ''upgrade_480'' (e\<lparr>time_calls := Suc (time_calls e)\<rparr>))"
    by (rule can_send_fst_cong; simp add: can_send_cooldowns)
  have t720: "fst (can_send_reminder ev ''upgrade_720'' ?e2)
        = fst (can_send_reminder ev ''upgrade_720'' (e\<lparr>time_calls := Suc (Suc (time_calls e))\<rparr>))"
    by (rule can_send_fst_cong; simp add: can_send_cooldowns)
  have unfold: "R = upgrade_loop ev game_time_seconds upgrade_timings e"
    by (simp add: R_def check_upgrade_timing_def)
  have c0: "fst R
           = (if game_time_seconds \<ge> 300 \<and> fst (can_send_reminder ev ''upgrade_300'' e)
              then [''Consider starting +1 attack/armor upgrades'']
              else if game_time_seconds \<ge> 480
                      \<and> fst (can_send_reminder ev ''upgrade_480''
                               (e\<lparr>time_calls := Suc (time_calls e)\<rparr>))
              then [''Time for +2 upgrades if +1 is done'']
              else if game_time_seconds \<ge> 720
                      \<and> fst (can_send_reminder ev ''upgrade_720''
                               (e\<lparr>time_calls := Suc (Suc (time_calls e))\<rparr>))
              then [''Consider +3 upgrades if +2 is complete'']
              else [])"
    unfolding unfold upgrade_timings_def
    by (simp add: upgrade_keys split_beta t480 t720)
  have c1: "length (fst R) \<le> 1"
    by (simp add: c0)
  have c2: "game_time_seconds \<ge> 300 \<and> fst (can_send_reminder ev ''upgrade_300'' e) \<longrightarrow>
            time_calls (snd R) = Suc (time_calls e)
            \<and> cooldowns (snd R) ''upgrade_480'' = cooldowns e ''upgrade_480''
            \<and> cooldowns (snd R) ''upgrade_720'' = cooldowns e ''upgrade_720''"
    unfolding unfold upgrade_timings_def
    by (simp add: upgrade_keys split_beta can_send_cooldowns)
  have c3: "enable_notifications e \<longrightarrow>
            map r_message (reminder_history (snd R))
              = map r_message (reminder_history e) @ map (\<lambda>msg. sym_up @ '' '' @ msg) (fst R)
            \<and> length (notify_log (snd R)) = length (notify_log e) + length (fst R)"
    unfolding unfold upgrade_timings_def
    by (simp add: upgrade_keys split_beta send_notification_history send_notification_log)
  have c4: "cooldowns e ''upgrade_300'' = None \<longrightarrow>
            fst (check_upgrade_timing ev 500 current_upgrades e)
              = [''Consider starting +1 attack/armor upgrades'']"
    by (simp add: check_upgrade_timing_def upgrade_timings_def upgrade_keys split_beta can_send_fst)
  from c0 c1 c2 c3 c4 show ?thesis by blast
qed

theorem upgrade_scan_witness:
  "enable_notifications (init_engine True)
   \<and> cooldowns (init_engine True) ''upgrade_300'' = None
   \<and> fst (check_upgrade_timing test_env 500 Map.empty (init_engine True))
       = [''Consider starting +1 attack/armor upgrades'']
   \<and> map r_message (reminder_history
        (snd (check_upgrade_timing test_env 500 Map.empty (init_engine True))))
       = [sym_up @ '' Consider starting +1 attack/armor upgrades'']
   \<and> time_calls (snd (check_upgrade_timing test_env 500 Map.empty (init_engine True))) = 1"
proof -
  have en: "enable_notifications (init_engine True)"
    and fresh: "cooldowns (init_engine True) ''upgrade_300'' = None"
    by (simp_all add: init_engine_def)
  show ?thesis
    using en fresh
      upgrade_scan [where game_time_seconds = 500 and ev = test_env and e = "init_engine True"
        and current_upgrades = Map.empty]
    by (simp add: can_send_fst) (simp add: init_engine_def)
qed

subsection \<open>Attack waves\<close>











subsection \<open>Commander tips\<close>

text \<open>
  C10: the prestige argument has no influence on the commander tip: two calls that differ
  in it only return the same tip and the same engine (cooldowns, history, notifier calls).
\<close>

theorem commander_tip_ignores_prestige:
  "get_commander_tip ev commander_name p1 game_phase e
     = get_commander_tip ev commander_name p2 game_phase e"
  by (simp add: get_commander_tip_def)

end
